theory Spec2Isabelle
  imports Main "HOL-Library.AList"
begin

section \<open>The Flickr authorisation flow of \<^verbatim>\<open>exoflickrauth.cpp\<close>\<close>

text \<open>
  The class \<^verbatim>\<open>exoFlickrAuth\<close> drives a three-legged OAuth handshake through callbacks:
  every member function runs to its end and either registers the next member function
  with an asynchronous collaborator (a notification, an HTTP request) or deletes the
  object. The model is a state machine over the whole process: the static flag, the
  settings store, the heap of attempt objects and a log of everything the attempts did
  to the outside, in the order they did it.
\<close>

subsection \<open>Values exchanged with the collaborators\<close>

text \<open>
  \<^verbatim>\<open>LLSD\<close> (declared in \<^verbatim>\<open>llsd.h\<close>, outside the sources at hand): the flow only builds the
  undefined value \<^verbatim>\<open>LLSD()\<close>, receives maps of strings, and reads
  \<^verbatim>\<open>value[key].asString()\<close>, which is the empty string for a missing key and for the
  undefined value.
\<close>

datatype LLSD = Undefined | LLMap "(string \<times> string) list"

fun asString :: "LLSD \<Rightarrow> string \<Rightarrow> string" where
  "asString Undefined k = []"
| "asString (LLMap kvs) k = (case map_of kvs k of None \<Rightarrow> [] | Some v \<Rightarrow> v)"

text \<open>
  The result of \<^verbatim>\<open>callbackHttpGetRaw\<close> as \<^verbatim>\<open>exoFlickrAuthResponse\<close> reads it: the type of
  the transport status (\<^verbatim>\<open>status.getType()\<close>) and the raw body.
\<close>

record http_results =
  status_type :: nat
  raw :: string

text \<open>
  \<^verbatim>\<open>HTTP_OK\<close> is declared in \<^verbatim>\<open>llhttpconstants.h\<close>, outside the sources at hand; it is the
  HTTP status code 200.
\<close>

definition HTTP_OK :: nat where
  "HTTP_OK = 200"

subsection \<open>What an attempt does to the outside\<close>

datatype effect =
    SetFlag bool
  | SetString string string
  | FlickrRequest string LLSD
  | HttpGetRaw string "(string \<times> string) list"
  | Notification string
  | SpawnWebBrowser string
  | Callback bool LLSD

text \<open>
  \<^item> \<open>SetFlag b\<close>: an assignment to \<^verbatim>\<open>sAuthorisationInProgress\<close>;
  \<^item> \<open>SetString k v\<close>: \<^verbatim>\<open>gSavedPerAccountSettings.setString(k, v)\<close>;
  \<^item> \<open>FlickrRequest m p\<close>: \<^verbatim>\<open>exoFlickr::request(m, p, ...)\<close>, the validation probe;
  \<^item> \<open>HttpGetRaw u ps\<close>: \<^verbatim>\<open>callbackHttpGetRaw\<close> on the endpoint \<open>u\<close> with the parameters
    \<open>ps\<close> handed to \<^verbatim>\<open>signRequest\<close> (signing is opaque);
  \<^item> \<open>Notification n\<close>: \<^verbatim>\<open>LLNotificationsUtil::add(n, ...)\<close>;
  \<^item> \<open>SpawnWebBrowser u\<close>: the external browser opened on \<open>u\<close>;
  \<^item> \<open>Callback b p\<close>: \<^verbatim>\<open>mCallback(b, p)\<close>, the caller's callback of this attempt.
  Log lines are not recorded. Each effect is logged with the identity of the attempt
  (\<^verbatim>\<open>this\<close>) that performed it.
\<close>

fun is_Callback :: "effect \<Rightarrow> bool" where
  "is_Callback (Callback b p) = True"
| "is_Callback e = False"

fun is_SetFlag :: "effect \<Rightarrow> bool" where
  "is_SetFlag (SetFlag b) = True"
| "is_SetFlag e = False"

text \<open>
  The HTTP requests among the effects: the token requests, and the validation probe, an
  authenticated call of the service whose failure line 88 logs as an HTTP failure.
\<close>

fun is_http :: "effect \<Rightarrow> bool" where
  "is_http (FlickrRequest m p) = True"
| "is_http (HttpGetRaw u ps) = True"
| "is_http e = False"

subsection \<open>The attempt object and the process state\<close>

text \<open>
  The member function that the pending asynchronous operation is bound to
  (\<^verbatim>\<open>boost::bind(&exoFlickrAuth::..., this, _1, _2)\<close>).
\<close>

datatype continuation =
    Constructing
  | CheckResult
  | ExplanationCallback
  | GotRequestToken
  | GotVerifier
  | GotAccessToken

text \<open>
  The object. \<^verbatim>\<open>mCallback\<close> is not data of the model: calling it is the effect
  \<open>Callback\<close>, logged under the attempt that called it. \<open>waiting\<close> is not a field of the
  class: it says which member function the pending operation of the object is bound to.
\<close>

record exoFlickrAuth =
  mAuthenticating :: bool
  waiting :: continuation

record system =
  sAuthorisationInProgress :: bool
  gSavedPerAccountSettings :: "string \<Rightarrow> string"
  objects :: "nat \<Rightarrow> exoFlickrAuth option"
  allocated :: nat
  trace :: "(nat \<times> effect) list"

text \<open>Process start: line 34 initialises the flag to false; nothing was allocated or done.\<close>

definition initial :: "(string \<Rightarrow> string) \<Rightarrow> system" where
  "initial store =
     \<lparr>sAuthorisationInProgress = False, gSavedPerAccountSettings = store,
      objects = (\<lambda>i. None), allocated = 0, trace = []\<rparr>"

subsection \<open>Primitive operations\<close>

definition emit :: "nat \<Rightarrow> effect \<Rightarrow> system \<Rightarrow> system" where
  "emit this e s = s\<lparr>trace := trace s @ [(this, e)]\<rparr>"

definition getString :: "string \<Rightarrow> system \<Rightarrow> string" where
  "getString k s = gSavedPerAccountSettings s k"

definition setString :: "nat \<Rightarrow> string \<Rightarrow> string \<Rightarrow> system \<Rightarrow> system" where
  "setString this k v s =
     emit this (SetString k v)
       (s\<lparr>gSavedPerAccountSettings := (gSavedPerAccountSettings s)(k := v)\<rparr>)"

definition set_sAuthorisationInProgress :: "nat \<Rightarrow> bool \<Rightarrow> system \<Rightarrow> system" where
  "set_sAuthorisationInProgress this b s =
     emit this (SetFlag b) (s\<lparr>sAuthorisationInProgress := b\<rparr>)"

definition set_mAuthenticating :: "nat \<Rightarrow> bool \<Rightarrow> system \<Rightarrow> system" where
  "set_mAuthenticating this b s =
     s\<lparr>objects := (objects s)(this := map_option (\<lambda>ob. ob\<lparr>mAuthenticating := b\<rparr>) (objects s this))\<rparr>"

definition bind_to :: "nat \<Rightarrow> continuation \<Rightarrow> system \<Rightarrow> system" where
  "bind_to this c s =
     s\<lparr>objects := (objects s)(this := map_option (\<lambda>ob. ob\<lparr>waiting := c\<rparr>) (objects s this))\<rparr>"

text \<open>The destructor (lines 71-77), and \<^verbatim>\<open>delete this\<close>: the destructor, then the release.\<close>

definition destructor :: "nat \<Rightarrow> system \<Rightarrow> system" where
  "destructor this s =
     (case objects s this of
        None \<Rightarrow> s
      | Some ob \<Rightarrow>
          if mAuthenticating ob then set_sAuthorisationInProgress this False s else s)"

definition delete_this :: "nat \<Rightarrow> system \<Rightarrow> system" where
  "delete_this this s =
     (let s1 = destructor this s in s1\<lparr>objects := (objects s1)(this := None)\<rparr>)"

subsection \<open>The member functions\<close>

definition beginAuthorisation :: "nat \<Rightarrow> system \<Rightarrow> system" where
  "beginAuthorisation this s =
     bind_to this ExplanationCallback
       (emit this (Notification ''ExodusFlickrVerificationExplanation'') s)"

definition checkAuthorisation :: "nat \<Rightarrow> system \<Rightarrow> system" where
  "checkAuthorisation this s =
     bind_to this CheckResult
       (emit this (FlickrRequest ''flickr.test.login'' Undefined) s)"

text \<open>
  The constructor (lines 50-69). Its initialiser list names \<^verbatim>\<open>mCallback\<close> only, and the
  class declaration (\<^verbatim>\<open>exoflickrauth.h\<close>) is outside the sources at hand: the value that
  \<^verbatim>\<open>mAuthenticating\<close> holds before line 59 assigns it is not fixed by the code, and is the
  parameter \<open>declared\<close>. On the path of lines 54-58 the destructor reads it.
\<close>

definition constructor :: "bool \<Rightarrow> system \<Rightarrow> system" where
  "constructor declared s =
     (let this = allocated s;
          s0 = s\<lparr>allocated := Suc this,
                 objects := (objects s)(this :=
                   Some \<lparr>mAuthenticating = declared, waiting = Constructing\<rparr>)\<rparr>
      in if sAuthorisationInProgress s0 then delete_this this s0
         else
           let s1 = set_mAuthenticating this True s0;
               s2 = set_sAuthorisationInProgress this True s1
           in if getString ''ExodusFlickrToken'' s2 = []
                 \<or> getString ''ExodusFlickrTokenSecret'' s2 = []
              then beginAuthorisation this s2
              else checkAuthorisation this s2)"

definition checkResult :: "nat \<Rightarrow> bool \<Rightarrow> LLSD \<Rightarrow> system \<Rightarrow> system" where
  "checkResult this success response s =
     (if \<not> success then beginAuthorisation this s
      else if asString response ''stat'' \<noteq> ''ok'' then beginAuthorisation this s
      else delete_this this (emit this (Callback True Undefined) s))"

definition explanationCallback :: "nat \<Rightarrow> int \<Rightarrow> system \<Rightarrow> system" where
  "explanationCallback this option s =
     (if option = 0 then
        let s1 = setString this ''ExodusFlickrToken'' [] s;
            s2 = setString this ''ExodusFlickrTokenSecret'' [] s1;
            s3 = emit this
                   (HttpGetRaw ''https://www.flickr.com/services/oauth/request_token''
                      [(''oauth_callback'', ''oob'')]) s2
        in bind_to this GotRequestToken s3
      else delete_this this (emit this (Callback False Undefined) s))"

definition gotRequestToken :: "nat \<Rightarrow> bool \<Rightarrow> LLSD \<Rightarrow> system \<Rightarrow> system" where
  "gotRequestToken this success params s =
     (if \<not> success then delete_this this (emit this (Callback False Undefined) s)
      else
        let token = asString params ''oauth_token'';
            secret = asString params ''oauth_token_secret'';
            s1 = setString this ''ExodusFlickrToken'' token s;
            s2 = setString this ''ExodusFlickrTokenSecret'' secret s1;
            s3 = emit this
                   (SpawnWebBrowser
                      (''https://www.flickr.com/services/oauth/authorize?perms=write&oauth_token=''
                         @ token)) s2;
            s4 = emit this (Notification ''ExodusFlickrVerificationPrompt'') s3
        in bind_to this GotVerifier s4)"

definition gotVerifier :: "nat \<Rightarrow> int \<Rightarrow> LLSD \<Rightarrow> system \<Rightarrow> system" where
  "gotVerifier this option response s =
     (if option = 1 then delete_this this (emit this (Callback False Undefined) s)
      else
        let s1 = emit this
                   (HttpGetRaw ''https://www.flickr.com/services/oauth/access_token''
                      [(''oauth_verifier'', asString response ''oauth_verifier'')]) s
        in bind_to this GotAccessToken s1)"

definition gotAccessToken :: "nat \<Rightarrow> bool \<Rightarrow> LLSD \<Rightarrow> system \<Rightarrow> system" where
  "gotAccessToken this success params s =
     delete_this this
       (if success then
          let s1 = setString this ''ExodusFlickrToken'' (asString params ''oauth_token'') s;
              s2 = setString this ''ExodusFlickrTokenSecret''
                     (asString params ''oauth_token_secret'') s1;
              s3 = setString this ''ExodusFlickrFullName'' (asString params ''fullname'') s2;
              s4 = setString this ''ExodusFlickrNSID'' (asString params ''user_nsid'') s3;
              s5 = setString this ''ExodusFlickrUsername'' (asString params ''username'') s4
          in emit this (Callback True params) s5
        else
          emit this (Callback False params)
            (emit this (Notification ''ExodusFlickrVerificationFailed'') s))"

text \<open>
  \<^verbatim>\<open>exoFlickrAuthResponse\<close> (lines 36-47). \<^verbatim>\<open>LLURI::queryMap\<close> is defined outside the sources at
  hand and is the parameter \<open>qm\<close>.
\<close>

definition exoFlickrAuthResponse ::
  "(string \<Rightarrow> LLSD) \<Rightarrow> http_results \<Rightarrow> (bool \<Rightarrow> LLSD \<Rightarrow> system \<Rightarrow> system) \<Rightarrow> system \<Rightarrow> system" where
  "exoFlickrAuthResponse qm aData aCallback s =
     (let resultLLSD = qm (raw aData)
      in aCallback (status_type aData = HTTP_OK) resultLLSD s)"

subsection \<open>The event loop\<close>

text \<open>
  What the environment does: a caller constructs an attempt, or a collaborator completes
  the operation that attempt \<open>i\<close> is waiting for. \<open>RequestDone\<close> carries what
  \<^verbatim>\<open>exoFlickr::request\<close> passes to its callback, \<open>NotificationDone\<close> the option that
  \<^verbatim>\<open>getSelectedOption\<close> returns and the response of the dialog, \<open>HttpDone\<close> the transport
  result. A completion is delivered to the member function it was bound to; a completion
  nobody waits for does not occur in the program and leaves the model unchanged.
\<close>

datatype event =
    New
  | RequestDone nat bool LLSD
  | NotificationDone nat int LLSD
  | HttpDone nat http_results

definition step :: "(string \<Rightarrow> LLSD) \<Rightarrow> bool \<Rightarrow> event \<Rightarrow> system \<Rightarrow> system" where
  "step qm declared e s =
     (case e of
        New \<Rightarrow> constructor declared s
      | RequestDone i success response \<Rightarrow>
          (case objects s i of
             None \<Rightarrow> s
           | Some ob \<Rightarrow>
               if waiting ob = CheckResult then checkResult i success response s else s)
      | NotificationDone i option response \<Rightarrow>
          (case objects s i of
             None \<Rightarrow> s
           | Some ob \<Rightarrow>
               if waiting ob = ExplanationCallback then explanationCallback i option s
               else if waiting ob = GotVerifier then gotVerifier i option response s
               else s)
      | HttpDone i aData \<Rightarrow>
          (case objects s i of
             None \<Rightarrow> s
           | Some ob \<Rightarrow>
               if waiting ob = GotRequestToken
               then exoFlickrAuthResponse qm aData (gotRequestToken i) s
               else if waiting ob = GotAccessToken
               then exoFlickrAuthResponse qm aData (gotAccessToken i) s
               else s))"

definition run :: "(string \<Rightarrow> LLSD) \<Rightarrow> bool \<Rightarrow> event list \<Rightarrow> system \<Rightarrow> system" where
  "run qm declared es s = foldl (\<lambda>s e. step qm declared e s) s es"

subsection \<open>Reading the log\<close>

definition effects_of :: "nat \<Rightarrow> (nat \<times> effect) list \<Rightarrow> effect list" where
  "effects_of i t = map snd (filter (\<lambda>x. fst x = i) t)"

definition callbacks_of :: "nat \<Rightarrow> (nat \<times> effect) list \<Rightarrow> effect list" where
  "callbacks_of i t = filter is_Callback (effects_of i t)"

definition new_effects :: "system \<Rightarrow> system \<Rightarrow> (nat \<times> effect) list" where
  "new_effects s s' = drop (length (trace s)) (trace s')"

subsection \<open>Decoding a response body\<close>

text \<open>
  The parts of the decoder defined at the end of this subsection: the fields of a string
  between separators, the value of a hexadecimal digit, a string with \<^verbatim>\<open>+\<close> and
  \<^verbatim>\<open>%XX\<close> decoded, a field split at its first \<^verbatim>\<open>=\<close>, and the pairs of a list of fields
  (a later pair replaces an earlier one of the same key; an empty field is skipped).
\<close>

fun fields :: "char \<Rightarrow> string \<Rightarrow> string \<Rightarrow> string list" where
  "fields c acc [] = [rev acc]"
| "fields c acc (x # xs) =
     (if x = c then rev acc # fields c [] xs else fields c (x # acc) xs)"

definition hex_digit :: "char \<Rightarrow> nat option" where
  "hex_digit c =
     (let n = (of_char c :: nat)
      in if 48 \<le> n \<and> n \<le> 57 then Some (n - 48)
         else if 65 \<le> n \<and> n \<le> 70 then Some (n - 55)
         else if 97 \<le> n \<and> n \<le> 102 then Some (n - 87)
         else None)"

fun unescape :: "string \<Rightarrow> string" where
  "unescape [] = []"
| "unescape (c # cs) =
     (if c = CHR ''+'' then CHR '' '' # unescape cs
      else if c = CHR ''%'' then
        (case cs of
           h # l # rest \<Rightarrow>
             (case (hex_digit h, hex_digit l) of
                (Some a, Some b) \<Rightarrow> char_of (16 * a + b) # unescape rest
              | _ \<Rightarrow> c # unescape cs)
         | _ \<Rightarrow> c # unescape cs)
      else c # unescape cs)"

definition key_value :: "string \<Rightarrow> (string \<times> string) option" where
  "key_value f =
     (if CHR ''='' \<in> set f
      then Some (unescape (takeWhile (\<lambda>c. c \<noteq> CHR ''='') f),
                 unescape (tl (dropWhile (\<lambda>c. c \<noteq> CHR ''='') f)))
      else None)"

fun collect :: "string list \<Rightarrow> (string \<times> string) list \<Rightarrow> (string \<times> string) list option" where
  "collect [] acc = Some acc"
| "collect (f # fs) acc =
     (if f = [] then collect fs acc
      else case key_value f of
             None \<Rightarrow> None
           | Some (k, v) \<Rightarrow> collect fs (AList.update k v acc))"

text \<open>
  Modelled from the spec: \<^verbatim>\<open>LLURI::queryMap\<close> (\<^verbatim>\<open>lluri.cpp\<close>) is outside the sources at hand.
  The spec has the response body parsed "as URL-encoded key/value pairs", has a body that
  fails to parse as key/value pairs "treated as empty payload", and decodes
  \<^verbatim>\<open>fullname=Jane+Doe\<close> to the full name \<^verbatim>\<open>Jane Doe\<close>. The theorems below hold for every
  decoder \<open>qm\<close>; this one instantiates them on the bodies the spec gives.
\<close>

definition queryMap :: "string \<Rightarrow> LLSD" where
  "queryMap body =
     (case collect (fields CHR ''&'' [] body) [] of
        None \<Rightarrow> LLMap []
      | Some kvs \<Rightarrow> LLMap kvs)"

text \<open>A settings store that holds the given token and secret and nothing else.\<close>

definition stored :: "string \<Rightarrow> string \<Rightarrow> string \<Rightarrow> string" where
  "stored token secret k =
     (if k = ''ExodusFlickrToken'' then token
      else if k = ''ExodusFlickrTokenSecret'' then secret
      else [])"

subsection \<open>Scenarios\<close>

text \<open>
  Concrete runs from process start, with the decoder above: attempt 0 at the consent
  prompt, at the validation probe, waiting for the request token, waiting for the access
  token.
\<close>

definition consenting :: system where
  "consenting = run queryMap False [New] (initial (stored [] []))"

definition probing :: system where
  "probing = run queryMap False [New] (initial (stored ''T'' ''S''))"

definition requesting :: system where
  "requesting = run queryMap False [New, NotificationDone 0 0 Undefined] (initial (stored [] []))"

definition exchanging :: system where
  "exchanging =
     run queryMap False
       [New, NotificationDone 0 0 Undefined,
        HttpDone 0 \<lparr>status_type = 200, raw = ''oauth_token=ABC&oauth_token_secret=XYZ''\<rparr>,
        NotificationDone 0 0 (LLMap [(''oauth_verifier'', ''123-456-789'')])]
       (initial (stored [] []))"

text \<open>
  Runs in which \<^verbatim>\<open>mAuthenticating\<close> reads true before the constructor assigns it: a second
  construction while attempt 0 is at the consent prompt; a third construction after it;
  and the second construction followed by the user declining the prompt of attempt 0.
\<close>

definition unset_member_duplicate :: system where
  "unset_member_duplicate = run queryMap True [New, New] (initial (stored [] []))"

definition unset_member_third :: system where
  "unset_member_third = run queryMap True [New, New, New] (initial (stored [] []))"

definition unset_member_declined :: system where
  "unset_member_declined =
     run queryMap True [New, New, NotificationDone 0 1 Undefined] (initial (stored [] []))"

text \<open>An attempt at the consent prompt over a store that holds a token and no secret.\<close>

definition half_stored :: system where
  "half_stored = run queryMap False [New] (initial (stored ''T'' []))"


text \<open>
  An attempt that finds stored credentials, whose probe fails and whose user then declines
  the consent prompt.
\<close>

definition declined_after_probe :: system where
  "declined_after_probe =
     run queryMap False
       [New, RequestDone 0 False Undefined, NotificationDone 0 1 Undefined]
       (initial (stored ''T'' ''S''))"

text \<open>The access-token response body of the spec.\<close>

definition jane :: string where
  "jane = ''oauth_token=T2&oauth_token_secret=S2&fullname=Jane+Doe&user_nsid=123&username=jane''"

subsection \<open>Vocabulary of the properties\<close>

text \<open>What the destructor of a deleted object adds to the log.\<close>

definition farewell :: "nat \<Rightarrow> exoFlickrAuth \<Rightarrow> (nat \<times> effect) list" where
  "farewell i ob = (if mAuthenticating ob then [(i, SetFlag False)] else [])"

text \<open>Effects that neither call the callback nor assign the flag.\<close>

definition quiet :: "effect list \<Rightarrow> bool" where
  "quiet effs = list_all (\<lambda>e. \<not> is_Callback e \<and> \<not> is_SetFlag e) effs"

text \<open>
  The five things a step can do: nothing; reject a duplicate; start an attempt; let a
  live attempt go on to its next wait; end a live attempt with one call of its callback.
\<close>

inductive moves :: "system \<Rightarrow> system \<Rightarrow> bool" where
  ignored: "moves s s"
| rejected:
    "sAuthorisationInProgress s \<Longrightarrow>
     moves s (s\<lparr>sAuthorisationInProgress := True, allocated := Suc (allocated s),
                 objects := (objects s)(allocated s := None)\<rparr>)"
| started:
    "\<not> sAuthorisationInProgress s \<Longrightarrow> quiet effs \<Longrightarrow>
     moves s (s\<lparr>sAuthorisationInProgress := True, allocated := Suc (allocated s),
                 objects := (objects s)(allocated s :=
                   Some \<lparr>mAuthenticating = True, waiting = w\<rparr>),
                 trace := trace s @ (allocated s, SetFlag True) # map (Pair (allocated s)) effs\<rparr>)"
| continued:
    "objects s i = Some ob \<Longrightarrow> quiet effs \<Longrightarrow>
     moves s (s\<lparr>gSavedPerAccountSettings := st,
                 objects := (objects s)(i := Some (ob\<lparr>waiting := w\<rparr>)),
                 trace := trace s @ map (Pair i) effs\<rparr>)"
| finished:
    "objects s i = Some ob \<Longrightarrow> quiet effs \<Longrightarrow>
     moves s (s\<lparr>gSavedPerAccountSettings := st,
                 sAuthorisationInProgress := sAuthorisationInProgress s \<and> \<not> mAuthenticating ob,
                 objects := (objects s)(i := None),
                 trace := trace s @ map (Pair i) effs @ (i, Callback b p) # farewell i ob\<rparr>)"

text \<open>
  Attempt \<open>i\<close> started when it set the flag; \<open>clears_of\<close> are its assignments of false
  to the flag.
\<close>

definition started :: "nat \<Rightarrow> (nat \<times> effect) list \<Rightarrow> bool" where
  "started i t = (SetFlag True \<in> set (effects_of i t))"

definition clears_of :: "nat \<Rightarrow> (nat \<times> effect) list \<Rightarrow> effect list" where
  "clears_of i t = filter (\<lambda>e. e = SetFlag False) (effects_of i t)"

text \<open>
  The invariant of the reachable states: unallocated identities have done nothing; a
  live attempt set the flag, which is still set, and has neither called its callback nor
  cleared the flag; at most one attempt is live; the flag is set only while an attempt is
  live; a deleted attempt either started and has called the callback once and cleared the
  flag once, or did neither.
\<close>

definition consistent :: "system \<Rightarrow> bool" where
  "consistent s \<longleftrightarrow>
     (\<forall>i. allocated s \<le> i \<longrightarrow> objects s i = None \<and> effects_of i (trace s) = [])
   \<and> (\<forall>i ob. objects s i = Some ob \<longrightarrow>
         mAuthenticating ob \<and> sAuthorisationInProgress s \<and> started i (trace s)
         \<and> callbacks_of i (trace s) = [] \<and> clears_of i (trace s) = [])
   \<and> (\<forall>i j. objects s i \<noteq> None \<longrightarrow> objects s j \<noteq> None \<longrightarrow> i = j)
   \<and> (sAuthorisationInProgress s \<longrightarrow> (\<exists>i. objects s i \<noteq> None))
   \<and> (\<forall>i. objects s i = None \<longrightarrow>
         (if started i (trace s)
          then length (callbacks_of i (trace s)) = 1 \<and> length (clears_of i (trace s)) = 1
          else callbacks_of i (trace s) = [] \<and> clears_of i (trace s) = []))"

text \<open>
  The two credential fields are both empty or both non-empty; a completion is balanced
  when, being a successful token response, it carries both fields or neither.
\<close>

definition paired :: "system \<Rightarrow> bool" where
  "paired s \<longleftrightarrow>
     (gSavedPerAccountSettings s ''ExodusFlickrToken'' = []
        \<longleftrightarrow> gSavedPerAccountSettings s ''ExodusFlickrTokenSecret'' = [])"

fun balanced :: "(string \<Rightarrow> LLSD) \<Rightarrow> event \<Rightarrow> bool" where
  "balanced qm (HttpDone i aData) =
     (status_type aData = HTTP_OK \<longrightarrow>
        (asString (qm (raw aData)) ''oauth_token'' = []
           \<longleftrightarrow> asString (qm (raw aData)) ''oauth_token_secret'' = []))"
| "balanced qm e = True"

section \<open>Symbolic execution of the member functions\<close>

named_theorems flow_defs

lemmas prims [flow_defs] = emit_def getString_def setString_def set_sAuthorisationInProgress_def
  set_mAuthenticating_def bind_to_def destructor_def delete_this_def
lemmas members [flow_defs] = beginAuthorisation_def checkAuthorisation_def constructor_def checkResult_def
  explanationCallback_def gotRequestToken_def gotVerifier_def gotAccessToken_def exoFlickrAuthResponse_def

lemma constructor_rejected:
  "sAuthorisationInProgress s \<Longrightarrow>
   constructor declared s =
     s\<lparr>sAuthorisationInProgress := \<not> declared,
       allocated := Suc (allocated s),
       objects := (objects s)(allocated s := None),
       trace := trace s @ (if declared then [(allocated s, SetFlag False)] else [])\<rparr>"
  by (simp add: flow_defs Let_def)

lemma constructor_begin:
  "\<not> sAuthorisationInProgress s \<Longrightarrow>
   gSavedPerAccountSettings s ''ExodusFlickrToken'' = []
     \<or> gSavedPerAccountSettings s ''ExodusFlickrTokenSecret'' = [] \<Longrightarrow>
   constructor declared s =
     s\<lparr>sAuthorisationInProgress := True,
       allocated := Suc (allocated s),
       objects := (objects s)(allocated s :=
         Some \<lparr>mAuthenticating = True, waiting = ExplanationCallback\<rparr>),
       trace := trace s @
         [(allocated s, SetFlag True),
          (allocated s, Notification ''ExodusFlickrVerificationExplanation'')]\<rparr>"
  by (auto simp add: flow_defs Let_def)

lemma constructor_check:
  "\<not> sAuthorisationInProgress s \<Longrightarrow>
   gSavedPerAccountSettings s ''ExodusFlickrToken'' \<noteq> [] \<Longrightarrow>
   gSavedPerAccountSettings s ''ExodusFlickrTokenSecret'' \<noteq> [] \<Longrightarrow>
   constructor declared s =
     s\<lparr>sAuthorisationInProgress := True,
       allocated := Suc (allocated s),
       objects := (objects s)(allocated s :=
         Some \<lparr>mAuthenticating = True, waiting = CheckResult\<rparr>),
       trace := trace s @
         [(allocated s, SetFlag True),
          (allocated s, FlickrRequest ''flickr.test.login'' Undefined)]\<rparr>"
  by (simp add: flow_defs Let_def)

lemma delete_this_live:
  "objects s i = Some ob \<Longrightarrow>
   delete_this i s =
     s\<lparr>sAuthorisationInProgress := sAuthorisationInProgress s \<and> \<not> mAuthenticating ob,
       objects := (objects s)(i := None),
       trace := trace s @ farewell i ob\<rparr>"
  by (simp add: flow_defs Let_def farewell_def)

lemma beginAuthorisation_live:
  "objects s i = Some ob \<Longrightarrow>
   beginAuthorisation i s =
     s\<lparr>objects := (objects s)(i := Some (ob\<lparr>waiting := ExplanationCallback\<rparr>)),
       trace := trace s @ [(i, Notification ''ExodusFlickrVerificationExplanation'')]\<rparr>"
  by (simp add: flow_defs)

lemma checkResult_invalid:
  "objects s i = Some ob \<Longrightarrow>
   \<not> success \<or> asString response ''stat'' \<noteq> ''ok'' \<Longrightarrow>
   checkResult i success response s =
     s\<lparr>objects := (objects s)(i := Some (ob\<lparr>waiting := ExplanationCallback\<rparr>)),
       trace := trace s @ [(i, Notification ''ExodusFlickrVerificationExplanation'')]\<rparr>"
  by (auto simp add: checkResult_def beginAuthorisation_live)

lemma checkResult_valid:
  "objects s i = Some ob \<Longrightarrow> success \<Longrightarrow> asString response ''stat'' = ''ok'' \<Longrightarrow>
   checkResult i success response s =
     s\<lparr>sAuthorisationInProgress := sAuthorisationInProgress s \<and> \<not> mAuthenticating ob,
       objects := (objects s)(i := None),
       trace := trace s @ (i, Callback True Undefined) # farewell i ob\<rparr>"
  by (simp add: flow_defs Let_def farewell_def)

lemma explanationCallback_accepted:
  "objects s i = Some ob \<Longrightarrow>
   explanationCallback i 0 s =
     s\<lparr>gSavedPerAccountSettings :=
         (gSavedPerAccountSettings s)
           (''ExodusFlickrToken'' := [], ''ExodusFlickrTokenSecret'' := []),
       objects := (objects s)(i := Some (ob\<lparr>waiting := GotRequestToken\<rparr>)),
       trace := trace s @
         [(i, SetString ''ExodusFlickrToken'' []),
          (i, SetString ''ExodusFlickrTokenSecret'' []),
          (i, HttpGetRaw ''https://www.flickr.com/services/oauth/request_token''
                [(''oauth_callback'', ''oob'')])]\<rparr>"
  by (simp add: flow_defs Let_def)

lemma explanationCallback_declined:
  "objects s i = Some ob \<Longrightarrow> option \<noteq> 0 \<Longrightarrow>
   explanationCallback i option s =
     s\<lparr>sAuthorisationInProgress := sAuthorisationInProgress s \<and> \<not> mAuthenticating ob,
       objects := (objects s)(i := None),
       trace := trace s @ (i, Callback False Undefined) # farewell i ob\<rparr>"
  by (simp add: flow_defs Let_def farewell_def)

lemma gotRequestToken_failed:
  "objects s i = Some ob \<Longrightarrow>
   gotRequestToken i False params s =
     s\<lparr>sAuthorisationInProgress := sAuthorisationInProgress s \<and> \<not> mAuthenticating ob,
       objects := (objects s)(i := None),
       trace := trace s @ (i, Callback False Undefined) # farewell i ob\<rparr>"
  by (simp add: flow_defs Let_def farewell_def)

lemma gotRequestToken_succeeded:
  "objects s i = Some ob \<Longrightarrow>
   gotRequestToken i True params s =
     s\<lparr>gSavedPerAccountSettings :=
         (gSavedPerAccountSettings s)
           (''ExodusFlickrToken'' := asString params ''oauth_token'',
            ''ExodusFlickrTokenSecret'' := asString params ''oauth_token_secret''),
       objects := (objects s)(i := Some (ob\<lparr>waiting := GotVerifier\<rparr>)),
       trace := trace s @
         [(i, SetString ''ExodusFlickrToken'' (asString params ''oauth_token'')),
          (i, SetString ''ExodusFlickrTokenSecret'' (asString params ''oauth_token_secret'')),
          (i, SpawnWebBrowser
                (''https://www.flickr.com/services/oauth/authorize?perms=write&oauth_token=''
                   @ asString params ''oauth_token'')),
          (i, Notification ''ExodusFlickrVerificationPrompt'')]\<rparr>"
  by (simp add: flow_defs Let_def)

lemma gotVerifier_cancelled:
  "objects s i = Some ob \<Longrightarrow>
   gotVerifier i 1 response s =
     s\<lparr>sAuthorisationInProgress := sAuthorisationInProgress s \<and> \<not> mAuthenticating ob,
       objects := (objects s)(i := None),
       trace := trace s @ (i, Callback False Undefined) # farewell i ob\<rparr>"
  by (simp add: flow_defs Let_def farewell_def)

lemma gotVerifier_entered:
  "objects s i = Some ob \<Longrightarrow> option \<noteq> 1 \<Longrightarrow>
   gotVerifier i option response s =
     s\<lparr>objects := (objects s)(i := Some (ob\<lparr>waiting := GotAccessToken\<rparr>)),
       trace := trace s @
         [(i, HttpGetRaw ''https://www.flickr.com/services/oauth/access_token''
                [(''oauth_verifier'', asString response ''oauth_verifier'')])]\<rparr>"
  by (simp add: flow_defs Let_def)

lemma gotAccessToken_succeeded:
  "objects s i = Some ob \<Longrightarrow>
   gotAccessToken i True params s =
     s\<lparr>gSavedPerAccountSettings :=
         (gSavedPerAccountSettings s)
           (''ExodusFlickrToken'' := asString params ''oauth_token'',
            ''ExodusFlickrTokenSecret'' := asString params ''oauth_token_secret'',
            ''ExodusFlickrFullName'' := asString params ''fullname'',
            ''ExodusFlickrNSID'' := asString params ''user_nsid'',
            ''ExodusFlickrUsername'' := asString params ''username''),
       sAuthorisationInProgress := sAuthorisationInProgress s \<and> \<not> mAuthenticating ob,
       objects := (objects s)(i := None),
       trace := trace s @
         [(i, SetString ''ExodusFlickrToken'' (asString params ''oauth_token'')),
          (i, SetString ''ExodusFlickrTokenSecret'' (asString params ''oauth_token_secret'')),
          (i, SetString ''ExodusFlickrFullName'' (asString params ''fullname'')),
          (i, SetString ''ExodusFlickrNSID'' (asString params ''user_nsid'')),
          (i, SetString ''ExodusFlickrUsername'' (asString params ''username'')),
          (i, Callback True params)] @ farewell i ob\<rparr>"
  by (simp add: flow_defs Let_def farewell_def)

lemma gotAccessToken_failed:
  "objects s i = Some ob \<Longrightarrow>
   gotAccessToken i False params s =
     s\<lparr>sAuthorisationInProgress := sAuthorisationInProgress s \<and> \<not> mAuthenticating ob,
       objects := (objects s)(i := None),
       trace := trace s @
         [(i, Notification ''ExodusFlickrVerificationFailed''),
          (i, Callback False params)] @ farewell i ob\<rparr>"
  by (simp add: flow_defs Let_def farewell_def)

section \<open>Every step is one of the five moves\<close>

lemma constructor_moves: "moves s (constructor False s)"
proof (cases "sAuthorisationInProgress s")
  case True
  then show ?thesis
    using moves.rejected [of s] by (simp add: constructor_rejected)
next
  case False
  show ?thesis
  proof (cases "gSavedPerAccountSettings s ''ExodusFlickrToken'' = []
                 \<or> gSavedPerAccountSettings s ''ExodusFlickrTokenSecret'' = []")
    case True
    with False show ?thesis
      using moves.started [where s = s and effs = "[Notification ''ExodusFlickrVerificationExplanation'']" and w = ExplanationCallback]
      by (simp add: constructor_begin quiet_def)
  next
    case nonempty: False
    with False show ?thesis
      using moves.started [where s = s and effs = "[FlickrRequest ''flickr.test.login'' Undefined]" and w = CheckResult]
      by (simp add: constructor_check quiet_def)
  qed
qed

lemma checkResult_moves:
  assumes "objects s i = Some ob"
  shows "moves s (checkResult i success response s)"
proof (cases "success \<and> asString response ''stat'' = ''ok''")
  case True
  then show ?thesis
    using moves.finished [OF assms, where effs = "[]" and st = "gSavedPerAccountSettings s" and b = True and p = Undefined] assms
    by (simp add: checkResult_valid quiet_def)
next
  case False
  then have "\<not> success \<or> asString response ''stat'' \<noteq> ''ok''" by simp
  then show ?thesis
    using moves.continued [OF assms, where effs = "[Notification ''ExodusFlickrVerificationExplanation'']" and st = "gSavedPerAccountSettings s" and w = ExplanationCallback] assms
    by (simp add: checkResult_invalid quiet_def)
qed

lemma explanationCallback_moves:
  assumes "objects s i = Some ob"
  shows "moves s (explanationCallback i option s)"
proof (cases "option = 0")
  case True
  then show ?thesis
    using moves.continued [OF assms, where effs = "[SetString ''ExodusFlickrToken'' [], SetString ''ExodusFlickrTokenSecret'' [],
             HttpGetRaw ''https://www.flickr.com/services/oauth/request_token''
               [(''oauth_callback'', ''oob'')]]" and st = "(gSavedPerAccountSettings s)
              (''ExodusFlickrToken'' := [], ''ExodusFlickrTokenSecret'' := [])" and w = GotRequestToken] assms
    by (simp add: explanationCallback_accepted quiet_def)
next
  case False
  then show ?thesis
    using moves.finished [OF assms, where effs = "[]" and st = "gSavedPerAccountSettings s" and b = False and p = Undefined] assms
    by (simp add: explanationCallback_declined quiet_def)
qed

lemma gotRequestToken_moves:
  assumes "objects s i = Some ob"
  shows "moves s (gotRequestToken i success params s)"
proof (cases success)
  case True
  then show ?thesis
    using moves.continued [OF assms, where effs = "[SetString ''ExodusFlickrToken'' (asString params ''oauth_token''),
             SetString ''ExodusFlickrTokenSecret'' (asString params ''oauth_token_secret''),
             SpawnWebBrowser
               (''https://www.flickr.com/services/oauth/authorize?perms=write&oauth_token=''
                  @ asString params ''oauth_token''),
             Notification ''ExodusFlickrVerificationPrompt'']" and st = "(gSavedPerAccountSettings s)
              (''ExodusFlickrToken'' := asString params ''oauth_token'',
               ''ExodusFlickrTokenSecret'' := asString params ''oauth_token_secret'')" and w = GotVerifier] assms
    by (simp add: gotRequestToken_succeeded quiet_def)
next
  case False
  then show ?thesis
    using moves.finished [OF assms, where effs = "[]" and st = "gSavedPerAccountSettings s" and b = False and p = Undefined] assms
    by (simp add: gotRequestToken_failed quiet_def)
qed

lemma gotVerifier_moves:
  assumes "objects s i = Some ob"
  shows "moves s (gotVerifier i option response s)"
proof (cases "option = 1")
  case True
  then show ?thesis
    using moves.finished [OF assms, where effs = "[]" and st = "gSavedPerAccountSettings s" and b = False and p = Undefined] assms
    by (simp add: gotVerifier_cancelled quiet_def)
next
  case False
  then show ?thesis
    using moves.continued [OF assms, where effs = "[HttpGetRaw ''https://www.flickr.com/services/oauth/access_token''
               [(''oauth_verifier'', asString response ''oauth_verifier'')]]" and st = "gSavedPerAccountSettings s" and w = GotAccessToken] assms
    by (simp add: gotVerifier_entered quiet_def)
qed

lemma gotAccessToken_moves:
  assumes "objects s i = Some ob"
  shows "moves s (gotAccessToken i success params s)"
proof (cases success)
  case True
  then show ?thesis
    using moves.finished [OF assms, where effs = "[SetString ''ExodusFlickrToken'' (asString params ''oauth_token''),
             SetString ''ExodusFlickrTokenSecret'' (asString params ''oauth_token_secret''),
             SetString ''ExodusFlickrFullName'' (asString params ''fullname''),
             SetString ''ExodusFlickrNSID'' (asString params ''user_nsid''),
             SetString ''ExodusFlickrUsername'' (asString params ''username'')]" and st = "(gSavedPerAccountSettings s)
              (''ExodusFlickrToken'' := asString params ''oauth_token'',
               ''ExodusFlickrTokenSecret'' := asString params ''oauth_token_secret'',
               ''ExodusFlickrFullName'' := asString params ''fullname'',
               ''ExodusFlickrNSID'' := asString params ''user_nsid'',
               ''ExodusFlickrUsername'' := asString params ''username'')" and b = True and p = params] assms
    by (simp add: gotAccessToken_succeeded quiet_def)
next
  case False
  then show ?thesis
    using moves.finished [OF assms, where effs = "[Notification ''ExodusFlickrVerificationFailed'']" and st = "gSavedPerAccountSettings s" and b = False and p = params] assms
    by (simp add: gotAccessToken_failed quiet_def)
qed

lemma step_moves: "moves s (step qm False e s)"
proof (cases e)
  case New
  then show ?thesis by (simp add: step_def constructor_moves)
next
  case (RequestDone i success response)
  then show ?thesis
    by (auto simp add: step_def checkResult_moves moves.ignored split: option.splits)
next
  case (NotificationDone i option response)
  then show ?thesis
    by (auto simp add: step_def explanationCallback_moves gotVerifier_moves moves.ignored
        split: option.splits)
next
  case (HttpDone i aData)
  then show ?thesis
    by (auto simp add: step_def exoFlickrAuthResponse_def gotRequestToken_moves
        gotAccessToken_moves moves.ignored split: option.splits)
qed

section \<open>The invariant\<close>

lemma effects_of_Nil [simp]: "effects_of i [] = []"
  by (simp add: effects_of_def)

lemma effects_of_Cons [simp]:
  "effects_of i ((j, e) # t) = (if j = i then e # effects_of i t else effects_of i t)"
  by (simp add: effects_of_def)

lemma effects_of_append [simp]: "effects_of i (t @ u) = effects_of i t @ effects_of i u"
  by (simp add: effects_of_def)

lemma effects_of_own [simp]: "effects_of i (map (Pair j) effs) = (if j = i then effs else [])"
  by (induction effs) auto

lemma effects_of_farewell [simp]:
  "effects_of i (farewell j ob) = (if j = i \<and> mAuthenticating ob then [SetFlag False] else [])"
  by (simp add: farewell_def)

lemma quiet_callbacks [simp]: "quiet effs \<Longrightarrow> filter is_Callback effs = []"
  by (induction effs) (auto simp add: quiet_def)

lemma quiet_clears [simp]: "quiet effs \<Longrightarrow> filter (\<lambda>e. e = SetFlag False) effs = []"
  by (induction effs) (auto simp add: quiet_def)

lemma quiet_started [simp]: "quiet effs \<Longrightarrow> SetFlag True \<notin> set effs"
  by (induction effs) (auto simp add: quiet_def)

lemma callbacks_of_append [simp]:
  "callbacks_of i (t @ u) = callbacks_of i t @ callbacks_of i u"
  by (simp add: callbacks_of_def)

lemma clears_of_append [simp]: "clears_of i (t @ u) = clears_of i t @ clears_of i u"
  by (simp add: clears_of_def)

lemma started_append [simp]: "started i (t @ u) \<longleftrightarrow> started i t \<or> started i u"
  by (auto simp add: started_def)

lemma consistent_initial: "consistent (initial store)"
  by (simp add: consistent_def initial_def callbacks_of_def clears_of_def started_def)

lemma consistent_moves:
  assumes "moves s s'" and "consistent s"
  shows "consistent s'"
  using assms
proof cases
  case ignored
  with assms show ?thesis by simp
next
  case rejected
  from assms(2) have "objects s (allocated s) = None"
    by (simp add: consistent_def)
  then have "(objects s)(allocated s := None) = objects s"
    by (simp add: fun_upd_idem)
  with rejected assms(2) show ?thesis
    by (auto simp add: consistent_def)
next
  case (started effs w)
  with assms(2) show ?thesis
    apply (simp add: consistent_def)
    apply (auto simp add: callbacks_of_def clears_of_def started_def)
    done
next
  case (continued i ob effs st w)
  with assms(2) show ?thesis
    apply (simp add: consistent_def)
    apply (auto simp add: callbacks_of_def clears_of_def started_def)
    done
next
  case (finished i ob effs st b p)
  with assms(2) show ?thesis
    apply (simp add: consistent_def)
    apply (auto simp add: callbacks_of_def clears_of_def started_def)
    done
qed

lemma step_consistent: "consistent s \<Longrightarrow> consistent (step qm False e s)"
  using step_moves consistent_moves by blast

lemma run_Nil [simp]: "run qm declared [] s = s"
  by (simp add: run_def)

lemma run_Cons [simp]: "run qm declared (e # es) s = run qm declared es (step qm declared e s)"
  by (simp add: run_def)

lemma run_consistent: "consistent s \<Longrightarrow> consistent (run qm False es s)"
  by (induction es arbitrary: s) (simp_all add: step_consistent)

lemma reachable_consistent: "consistent (run qm False es (initial store))"
  by (simp add: run_consistent consistent_initial)

lemma new_effects_append [simp]: "trace s' = trace s @ t \<Longrightarrow> new_effects s s' = t"
  by (simp add: new_effects_def)

lemma paired_cong: "gSavedPerAccountSettings s' = gSavedPerAccountSettings s \<Longrightarrow> paired s' = paired s"
  by (simp add: paired_def)

lemma step_pairs_or_keeps:
  "balanced qm e \<Longrightarrow>
   paired (step qm declared e s)
   \<or> gSavedPerAccountSettings (step qm declared e s) = gSavedPerAccountSettings s"
  by (cases e) (auto simp add: step_def flow_defs Let_def paired_def split: option.splits)

lemma run_pairs_or_keeps:
  "list_all (balanced qm) es \<Longrightarrow>
   paired (run qm declared es s)
   \<or> gSavedPerAccountSettings (run qm declared es s) = gSavedPerAccountSettings s"
proof (induction es arbitrary: s)
  case Nil
  then show ?case by simp
next
  case (Cons e es)
  then have e: "balanced qm e" and es: "list_all (balanced qm) es"
    by simp_all
  from Cons.IH [OF es, of "step qm declared e s"]
  have rest: "paired (run qm declared (e # es) s)
      \<or> gSavedPerAccountSettings (run qm declared (e # es) s)
          = gSavedPerAccountSettings (step qm declared e s)"
    by simp
  from step_pairs_or_keeps [OF e, of declared s] rest show ?case
    using paired_cong by metis
qed


section \<open>The scenarios, evaluated\<close>

lemma consenting_fields:
  "objects consenting 0 = Some \<lparr>mAuthenticating = True, waiting = ExplanationCallback\<rparr>"
  "sAuthorisationInProgress consenting"
  "trace consenting = [(0, SetFlag True), (0, Notification ''ExodusFlickrVerificationExplanation'')]"
  by (simp_all add: consenting_def step_def flow_defs initial_def stored_def Let_def)

lemma probing_fields:
  "objects probing 0 = Some \<lparr>mAuthenticating = True, waiting = CheckResult\<rparr>"
  "sAuthorisationInProgress probing"
  "trace probing = [(0, SetFlag True), (0, FlickrRequest ''flickr.test.login'' Undefined)]"
  by (simp_all add: probing_def step_def flow_defs initial_def stored_def Let_def)

lemma requesting_fields:
  "objects requesting 0 = Some \<lparr>mAuthenticating = True, waiting = GotRequestToken\<rparr>"
  "sAuthorisationInProgress requesting"
  "gSavedPerAccountSettings requesting ''ExodusFlickrToken'' = []"
  "gSavedPerAccountSettings requesting ''ExodusFlickrTokenSecret'' = []"
  by (simp_all add: requesting_def step_def flow_defs initial_def stored_def Let_def)

lemma exchanging_fields:
  "objects exchanging 0 = Some \<lparr>mAuthenticating = True, waiting = GotAccessToken\<rparr>"
  "sAuthorisationInProgress exchanging"
  "gSavedPerAccountSettings exchanging ''ExodusFlickrToken'' = ''ABC''"
  "gSavedPerAccountSettings exchanging ''ExodusFlickrTokenSecret'' = ''XYZ''"
  by (simp_all add: exchanging_def step_def flow_defs initial_def stored_def Let_def HTTP_OK_def
      queryMap_def key_value_def)


lemma declined_after_probe_fields:
  "objects declined_after_probe 0 = None"
  "trace declined_after_probe =
     [(0, SetFlag True), (0, FlickrRequest ''flickr.test.login'' Undefined),
      (0, Notification ''ExodusFlickrVerificationExplanation''),
      (0, Callback False Undefined), (0, SetFlag False)]"
  by (simp_all add: declined_after_probe_def step_def flow_defs initial_def stored_def Let_def)

lemma queryMap_jane:
  "queryMap jane =
     LLMap [(''oauth_token'', ''T2''), (''oauth_token_secret'', ''S2''),
            (''fullname'', ''Jane Doe''), (''user_nsid'', ''123''), (''username'', ''jane'')]"
  by (simp add: jane_def queryMap_def key_value_def)

lemma unset_member_duplicate_fields:
  "objects unset_member_duplicate 0
     = Some \<lparr>mAuthenticating = True, waiting = ExplanationCallback\<rparr>"
  "objects unset_member_duplicate (Suc 0) = None"
  "sAuthorisationInProgress unset_member_duplicate = False"
  "trace unset_member_duplicate =
     [(0, SetFlag True), (0, Notification ''ExodusFlickrVerificationExplanation''),
      (Suc 0, SetFlag False)]"
  by (simp_all add: unset_member_duplicate_def step_def flow_defs initial_def stored_def Let_def)

lemma unset_member_third_fields:
  "objects unset_member_third 0
     = Some \<lparr>mAuthenticating = True, waiting = ExplanationCallback\<rparr>"
  "objects unset_member_third (Suc 0) = None"
  "objects unset_member_third 2
     = Some \<lparr>mAuthenticating = True, waiting = ExplanationCallback\<rparr>"
  "trace unset_member_third =
     [(0, SetFlag True), (0, Notification ''ExodusFlickrVerificationExplanation''),
      (Suc 0, SetFlag False),
      (2, SetFlag True), (2, Notification ''ExodusFlickrVerificationExplanation'')]"
  by (simp_all add: unset_member_third_def step_def flow_defs initial_def stored_def Let_def)

lemma unset_member_declined_fields:
  "objects unset_member_declined 0 = None"
  "objects unset_member_declined (Suc 0) = None"
  "trace unset_member_declined =
     [(0, SetFlag True), (0, Notification ''ExodusFlickrVerificationExplanation''),
      (Suc 0, SetFlag False),
      (0, Callback False Undefined), (0, SetFlag False)]"
  by (simp_all add: unset_member_declined_def step_def flow_defs initial_def stored_def Let_def)

lemma half_stored_fields:
  "objects half_stored 0 = Some \<lparr>mAuthenticating = True, waiting = ExplanationCallback\<rparr>"
  "gSavedPerAccountSettings half_stored ''ExodusFlickrToken'' = ''T''"
  "gSavedPerAccountSettings half_stored ''ExodusFlickrTokenSecret'' = []"
  by (simp_all add: half_stored_def step_def flow_defs initial_def stored_def Let_def)

section \<open>Single flight and the terminal contract\<close>

text \<open>
  The constructor tests the flag at line 54 and, finding it set, runs \<^verbatim>\<open>delete this\<close>
  (line 56) before line 59 has assigned \<^verbatim>\<open>mAuthenticating\<close>; the initialiser list (line 51)
  names \<^verbatim>\<open>mCallback\<close> only. The destructor (line 73) then reads a member that was never
  written. Its guard says what is meant: only the attempt that set the flag clears it.
  Whenever the unwritten member reads true, the destructor of the rejected duplicate
  clears the flag of the attempt in progress.
\<close>

text \<open>
  Claim C1 (single flight: at most one attempt is in progress at any time, and a
  construction while one is in progress does nothing). The code breaks it. With the
  unwritten member reading true, the second construction calls no callback and writes no
  setting, but its destructor clears the flag while attempt 0 is still waiting at the
  consent prompt; the third construction finds the flag clear and starts attempt 2 beside
  attempt 0: two attempts are in progress.
\<close>

theorem duplicate_admits_second_attempt:
  "objects unset_member_duplicate 0
     = Some \<lparr>mAuthenticating = True, waiting = ExplanationCallback\<rparr>
   \<and> objects unset_member_duplicate (Suc 0) = None
   \<and> callbacks_of (Suc 0) (trace unset_member_duplicate) = []
   \<and> effects_of (Suc 0) (trace unset_member_duplicate) = [SetFlag False]
   \<and> sAuthorisationInProgress unset_member_duplicate = False
   \<and> objects unset_member_third 0
     = Some \<lparr>mAuthenticating = True, waiting = ExplanationCallback\<rparr>
   \<and> objects unset_member_third 2
     = Some \<lparr>mAuthenticating = True, waiting = ExplanationCallback\<rparr>
   \<and> effects_of 2 (trace unset_member_third)
     = [SetFlag True, Notification ''ExodusFlickrVerificationExplanation'']"
  by (simp add: unset_member_duplicate_fields unset_member_third_fields callbacks_of_def)

text \<open>
  Claim C2 (terminal contract: an attempt that set the flag calls its callback exactly
  once and clears the flag exactly once on reaching its end; an attempt rejected as a
  duplicate never calls its callback and never clears the flag it did not set). The code
  breaks the last part, by the defect of claim C1. In the run below, with the unwritten
  member reading true, attempt 0 sets the flag, is declined, calls its callback once and
  clears the flag once; attempt 1, rejected as a duplicate, never set the flag and never
  calls its callback, yet it cleared the flag.
\<close>

theorem duplicate_clears_flag_it_never_set:
  "started 0 (trace unset_member_declined)
   \<and> objects unset_member_declined 0 = None
   \<and> callbacks_of 0 (trace unset_member_declined) = [Callback False Undefined]
   \<and> clears_of 0 (trace unset_member_declined) = [SetFlag False]
   \<and> objects unset_member_declined (Suc 0) = None
   \<and> started (Suc 0) (trace unset_member_declined) = False
   \<and> callbacks_of (Suc 0) (trace unset_member_declined) = []
   \<and> clears_of (Suc 0) (trace unset_member_declined) = [SetFlag False]"
  by (simp add: unset_member_declined_fields started_def callbacks_of_def clears_of_def)

subsection \<open>With the member written before the test\<close>

text \<open>
  If \<^verbatim>\<open>mAuthenticating\<close> is false before the constructor tests the flag, both properties
  hold in every state reached from process start: at most one attempt object is live,
  every live attempt has the member set, and the flag is set exactly when an attempt is
  live. The last part is for any state and any value of the member: what a construction
  does when the flag is set.
\<close>

lemma single_flight_if_member_false:
  "(\<forall>i j. objects (run qm False es (initial store)) i \<noteq> None
          \<longrightarrow> objects (run qm False es (initial store)) j \<noteq> None \<longrightarrow> i = j)
   \<and> (\<forall>i ob. objects (run qm False es (initial store)) i = Some ob \<longrightarrow> mAuthenticating ob)
   \<and> (sAuthorisationInProgress (run qm False es (initial store))
        \<longleftrightarrow> (\<exists>i. objects (run qm False es (initial store)) i \<noteq> None))
   \<and> (sAuthorisationInProgress s \<longrightarrow>
         objects (step qm declared New s) (allocated s) = None
       \<and> new_effects s (step qm declared New s)
           = (if declared then [(allocated s, SetFlag False)] else [])
       \<and> gSavedPerAccountSettings (step qm declared New s) = gSavedPerAccountSettings s
       \<and> sAuthorisationInProgress (step qm declared New s) = (\<not> declared))"
proof -
  have c: "consistent (run qm False es (initial store))"
    by (rule reachable_consistent)
  have one: "\<forall>i j. objects (run qm False es (initial store)) i \<noteq> None
          \<longrightarrow> objects (run qm False es (initial store)) j \<noteq> None \<longrightarrow> i = j"
    using c unfolding consistent_def by blast
  have auth: "\<forall>i ob. objects (run qm False es (initial store)) i = Some ob \<longrightarrow> mAuthenticating ob"
    using c unfolding consistent_def by blast
  have flag: "sAuthorisationInProgress (run qm False es (initial store))
        \<longleftrightarrow> (\<exists>i. objects (run qm False es (initial store)) i \<noteq> None)"
    using c unfolding consistent_def by blast
  have dup: "sAuthorisationInProgress s \<longrightarrow>
         objects (step qm declared New s) (allocated s) = None
       \<and> new_effects s (step qm declared New s)
           = (if declared then [(allocated s, SetFlag False)] else [])
       \<and> gSavedPerAccountSettings (step qm declared New s) = gSavedPerAccountSettings s
       \<and> sAuthorisationInProgress (step qm declared New s) = (\<not> declared)"
    by (simp add: step_def constructor_rejected)
  from one auth flag dup show ?thesis by blast
qed

text \<open>
  In those runs, for every attempt constructed so far: while its object is live it has
  set the flag and has neither called its callback nor cleared the flag; once its object
  is deleted, if it had set the flag then it has called its callback exactly once and
  cleared the flag exactly once, and if it had not then it has done neither.
\<close>

lemma terminal_contract_if_member_false:
  "i < allocated (run qm False es (initial store)) \<Longrightarrow>
   (case objects (run qm False es (initial store)) i of
      Some ob \<Rightarrow>
        started i (trace (run qm False es (initial store)))
        \<and> callbacks_of i (trace (run qm False es (initial store))) = []
        \<and> clears_of i (trace (run qm False es (initial store))) = []
    | None \<Rightarrow>
        if started i (trace (run qm False es (initial store)))
        then length (callbacks_of i (trace (run qm False es (initial store)))) = 1
             \<and> length (clears_of i (trace (run qm False es (initial store)))) = 1
        else callbacks_of i (trace (run qm False es (initial store))) = []
             \<and> clears_of i (trace (run qm False es (initial store))) = [])"
proof -
  have c: "consistent (run qm False es (initial store))"
    by (rule reachable_consistent)
  show ?thesis
  proof (cases "objects (run qm False es (initial store)) i")
    case None
    with c show ?thesis
      unfolding consistent_def by simp
  next
    case (Some ob)
    with c have "started i (trace (run qm False es (initial store)))
        \<and> callbacks_of i (trace (run qm False es (initial store))) = []
        \<and> clears_of i (trace (run qm False es (initial store))) = []"
      unfolding consistent_def by blast
    with Some show ?thesis by simp
  qed
qed


section \<open>The credentials in the settings store\<close>

text \<open>
  Claim C3 as stated (after every write of the flow the token and the token secret are
  both empty or both non-empty) fails: a request-token response with status
  \<^verbatim>\<open>HTTP_OK\<close> whose body carries \<^verbatim>\<open>oauth_token\<close> only is taken as a success, and
  \<^verbatim>\<open>gotRequestToken\<close> writes the token \<^verbatim>\<open>ABC\<close> and the empty secret.
\<close>

theorem half_written_counterexample:
  "balanced queryMap (HttpDone 0 \<lparr>status_type = HTTP_OK, raw = ''oauth_token=ABC''\<rparr>) = False
   \<and> paired requesting
   \<and> \<not> paired (step queryMap False
                   (HttpDone 0 \<lparr>status_type = HTTP_OK, raw = ''oauth_token=ABC''\<rparr>) requesting)
   \<and> gSavedPerAccountSettings
         (step queryMap False
            (HttpDone 0 \<lparr>status_type = HTTP_OK, raw = ''oauth_token=ABC''\<rparr>) requesting)
         ''ExodusFlickrToken'' = ''ABC''
   \<and> gSavedPerAccountSettings
         (step queryMap False
            (HttpDone 0 \<lparr>status_type = HTTP_OK, raw = ''oauth_token=ABC''\<rparr>) requesting)
         ''ExodusFlickrTokenSecret'' = []
   \<and> \<not> paired (gotRequestToken 0 True (LLMap [(''oauth_token'', ''ABC'')]) requesting)"
  by (simp add: paired_def requesting_fields step_def exoFlickrAuthResponse_def
      gotRequestToken_succeeded queryMap_def key_value_def)

text \<open>
  Claim C3, amended. The flow writes the two fields of a successful token response as
  they were received, without looking at them. So, from any store (a half-written one
  too) and for any completion whose response, if it is a successful (\<^verbatim>\<open>HTTP_OK\<close>) token
  response, carries \<^verbatim>\<open>oauth_token\<close> and \<^verbatim>\<open>oauth_token_secret\<close> both empty or both
  non-empty: after the member function has run, either it has left the store as it was,
  or the token and the token secret are both empty or both non-empty. The same holds for
  every sequence of such events: the store is as it was at the start, or the two fields
  are both empty or both non-empty.
\<close>


theorem credentials_pairing:
  "(balanced qm e \<longrightarrow>
      paired (step qm declared e s)
      \<or> gSavedPerAccountSettings (step qm declared e s) = gSavedPerAccountSettings s)
   \<and> (list_all (balanced qm) es \<longrightarrow>
      paired (run qm declared es s)
      \<or> gSavedPerAccountSettings (run qm declared es s) = gSavedPerAccountSettings s)"
  using step_pairs_or_keeps run_pairs_or_keeps by blast

theorem credentials_pairing_witness:
  "\<not> paired half_stored
   \<and> balanced queryMap (NotificationDone 0 0 Undefined)
   \<and> paired (step queryMap False (NotificationDone 0 0 Undefined) half_stored)
   \<and> gSavedPerAccountSettings (step queryMap False (NotificationDone 0 0 Undefined) half_stored)
       \<noteq> gSavedPerAccountSettings half_stored
   \<and> list_all (balanced queryMap)
        [New, NotificationDone 0 0 Undefined,
         HttpDone 0 \<lparr>status_type = 200, raw = ''oauth_token=ABC&oauth_token_secret=XYZ''\<rparr>,
         NotificationDone 0 0 (LLMap [(''oauth_verifier'', ''123-456-789'')])]
   \<and> paired exchanging
   \<and> gSavedPerAccountSettings exchanging ''ExodusFlickrToken'' = ''ABC''
   \<and> gSavedPerAccountSettings exchanging ''ExodusFlickrTokenSecret'' = ''XYZ''"
proof -
  have before: "\<not> paired half_stored"
    by (simp add: paired_def half_stored_fields)
  have accept: "balanced queryMap (NotificationDone 0 0 Undefined)"
    by simp
  have written: "gSavedPerAccountSettings
        (step queryMap False (NotificationDone 0 0 Undefined) half_stored) ''ExodusFlickrToken''
      \<noteq> gSavedPerAccountSettings half_stored ''ExodusFlickrToken''"
    by (simp add: step_def half_stored_fields explanationCallback_accepted)
  then have changed: "gSavedPerAccountSettings
        (step queryMap False (NotificationDone 0 0 Undefined) half_stored)
      \<noteq> gSavedPerAccountSettings half_stored"
    by metis
  have events: "list_all (balanced queryMap)
        [New, NotificationDone 0 0 Undefined,
         HttpDone 0 \<lparr>status_type = 200, raw = ''oauth_token=ABC&oauth_token_secret=XYZ''\<rparr>,
         NotificationDone 0 0 (LLMap [(''oauth_verifier'', ''123-456-789'')])]"
    by (simp add: queryMap_def key_value_def)
  have fields: "gSavedPerAccountSettings exchanging ''ExodusFlickrToken'' = ''ABC''"
    "gSavedPerAccountSettings exchanging ''ExodusFlickrTokenSecret'' = ''XYZ''"
    by (simp_all add: exchanging_fields)
  from credentials_pairing [where qm = queryMap and declared = False
      and e = "NotificationDone 0 0 Undefined" and s = half_stored and es = "[]"]
    accept changed
  have repaired: "paired (step queryMap False (NotificationDone 0 0 Undefined) half_stored)"
    by blast
  have start: "gSavedPerAccountSettings (initial (stored [] [])) ''ExodusFlickrToken'' = []"
    by (simp add: initial_def stored_def)
  from credentials_pairing [where qm = queryMap and declared = False
      and s = "initial (stored [] [])" and e = New
      and es = "[New, NotificationDone 0 0 Undefined,
         HttpDone 0 \<lparr>status_type = 200, raw = ''oauth_token=ABC&oauth_token_secret=XYZ''\<rparr>,
         NotificationDone 0 0 (LLMap [(''oauth_verifier'', ''123-456-789'')])]"]
    events
  have "paired exchanging
      \<or> gSavedPerAccountSettings exchanging = gSavedPerAccountSettings (initial (stored [] []))"
    by (simp only: exchanging_def)
  with fields start have whole: "paired exchanging"
    by auto
  from before accept repaired changed events whole fields show ?thesis
    by blast
qed


section \<open>How a completion is classified\<close>

text \<open>
  Claim C4 as stated (on every leg, a 2xx response whose application-level status field
  is not the success marker is a failure) fails: \<^verbatim>\<open>exoFlickrAuthResponse\<close> looks at the
  transport status only. A request-token response with status \<^verbatim>\<open>HTTP_OK\<close> and the body
  \<^verbatim>\<open>stat=fail\<close> is taken as a success: the attempt writes the (empty) token fields, opens
  the browser and shows the verifier prompt.
\<close>

theorem leg_status_field_counterexample:
  "asString (queryMap ''stat=fail'') ''stat'' = ''fail''
   \<and> objects (step queryMap False
                (HttpDone 0 \<lparr>status_type = HTTP_OK, raw = ''stat=fail''\<rparr>) requesting) 0
       = Some \<lparr>mAuthenticating = True, waiting = GotVerifier\<rparr>
   \<and> new_effects requesting
         (step queryMap False (HttpDone 0 \<lparr>status_type = HTTP_OK, raw = ''stat=fail''\<rparr>) requesting)
       = [(0, SetString ''ExodusFlickrToken'' []),
          (0, SetString ''ExodusFlickrTokenSecret'' []),
          (0, SpawnWebBrowser
                ''https://www.flickr.com/services/oauth/authorize?perms=write&oauth_token=''),
          (0, Notification ''ExodusFlickrVerificationPrompt'')]"
  by (simp add: requesting_fields step_def exoFlickrAuthResponse_def
      gotRequestToken_succeeded queryMap_def key_value_def)

text \<open>
  Claim C4, amended. For a live attempt:
  \<^item> waiting for the request token, a response is a failure exactly when its status type
    is not \<^verbatim>\<open>HTTP_OK\<close>; the failure deletes the attempt after calling the callback with
    \<open>(false, LLSD())\<close> and does nothing else, and a success goes on to the verifier
    prompt without calling the callback;
  \<^item> waiting for the access token, a response is a failure exactly when its status type
    is not \<^verbatim>\<open>HTTP_OK\<close>; the failure shows the failure notice and calls the callback
    with false and the decoded body, a success calls it with true and the decoded body,
    and both delete the attempt;
  \<^item> waiting for the validation probe, the outcome is a failure exactly when the
    request reports no success or the field \<^verbatim>\<open>stat\<close> of the response is not \<^verbatim>\<open>ok\<close>; the
    failure shows the consent prompt and nothing else, a success calls the callback with
    \<open>(true, LLSD())\<close> and deletes the attempt.
  No failure issues a request: nothing is retried.
\<close>

theorem leg_failure_classification:
  assumes "objects s i = Some ob"
  shows
    "(waiting ob = GotRequestToken \<longrightarrow>
        (if status_type aData \<noteq> HTTP_OK
         then objects (step qm declared (HttpDone i aData) s) i = None
              \<and> new_effects s (step qm declared (HttpDone i aData) s)
                  = (i, Callback False Undefined) # farewell i ob
         else objects (step qm declared (HttpDone i aData) s) i
                = Some (ob\<lparr>waiting := GotVerifier\<rparr>)
              \<and> callbacks_of i (new_effects s (step qm declared (HttpDone i aData) s)) = []))
   \<and> (waiting ob = GotAccessToken \<longrightarrow>
        objects (step qm declared (HttpDone i aData) s) i = None
        \<and> (if status_type aData \<noteq> HTTP_OK
           then new_effects s (step qm declared (HttpDone i aData) s)
                  = [(i, Notification ''ExodusFlickrVerificationFailed''),
                     (i, Callback False (qm (raw aData)))] @ farewell i ob
           else callbacks_of i (new_effects s (step qm declared (HttpDone i aData) s))
                  = [Callback True (qm (raw aData))]))
   \<and> (waiting ob = CheckResult \<longrightarrow>
        (if \<not> success \<or> asString response ''stat'' \<noteq> ''ok''
         then objects (step qm declared (RequestDone i success response) s) i
                = Some (ob\<lparr>waiting := ExplanationCallback\<rparr>)
              \<and> new_effects s (step qm declared (RequestDone i success response) s)
                  = [(i, Notification ''ExodusFlickrVerificationExplanation'')]
         else objects (step qm declared (RequestDone i success response) s) i = None
              \<and> new_effects s (step qm declared (RequestDone i success response) s)
                  = (i, Callback True Undefined) # farewell i ob))"
proof -
  have leg1: "waiting ob = GotRequestToken \<longrightarrow>
        (if status_type aData \<noteq> HTTP_OK
         then objects (step qm declared (HttpDone i aData) s) i = None
              \<and> new_effects s (step qm declared (HttpDone i aData) s)
                  = (i, Callback False Undefined) # farewell i ob
         else objects (step qm declared (HttpDone i aData) s) i
                = Some (ob\<lparr>waiting := GotVerifier\<rparr>)
              \<and> callbacks_of i (new_effects s (step qm declared (HttpDone i aData) s)) = [])"
    using assms
    by (simp add: step_def exoFlickrAuthResponse_def gotRequestToken_failed
        gotRequestToken_succeeded callbacks_of_def)
  have leg3: "waiting ob = GotAccessToken \<longrightarrow>
        objects (step qm declared (HttpDone i aData) s) i = None
        \<and> (if status_type aData \<noteq> HTTP_OK
           then new_effects s (step qm declared (HttpDone i aData) s)
                  = [(i, Notification ''ExodusFlickrVerificationFailed''),
                     (i, Callback False (qm (raw aData)))] @ farewell i ob
           else callbacks_of i (new_effects s (step qm declared (HttpDone i aData) s))
                  = [Callback True (qm (raw aData))])"
    using assms
    by (simp add: step_def exoFlickrAuthResponse_def gotAccessToken_failed
        gotAccessToken_succeeded callbacks_of_def)
  have probe: "waiting ob = CheckResult \<longrightarrow>
        (if \<not> success \<or> asString response ''stat'' \<noteq> ''ok''
         then objects (step qm declared (RequestDone i success response) s) i
                = Some (ob\<lparr>waiting := ExplanationCallback\<rparr>)
              \<and> new_effects s (step qm declared (RequestDone i success response) s)
                  = [(i, Notification ''ExodusFlickrVerificationExplanation'')]
         else objects (step qm declared (RequestDone i success response) s) i = None
              \<and> new_effects s (step qm declared (RequestDone i success response) s)
                  = (i, Callback True Undefined) # farewell i ob)"
    using assms
    by (auto simp add: step_def checkResult_invalid checkResult_valid)
  from leg1 leg3 probe show ?thesis by blast
qed

theorem leg_failure_classification_witness:
  "objects requesting 0 = Some \<lparr>mAuthenticating = True, waiting = GotRequestToken\<rparr>
   \<and> objects (step queryMap False (HttpDone 0 \<lparr>status_type = 500, raw = []\<rparr>) requesting) 0 = None
   \<and> new_effects requesting
         (step queryMap False (HttpDone 0 \<lparr>status_type = 500, raw = []\<rparr>) requesting)
       = [(0, Callback False Undefined), (0, SetFlag False)]
   \<and> objects exchanging 0 = Some \<lparr>mAuthenticating = True, waiting = GotAccessToken\<rparr>
   \<and> new_effects exchanging
         (step queryMap False
            (HttpDone 0 \<lparr>status_type = 401, raw = ''oauth_problem=token_rejected''\<rparr>) exchanging)
       = [(0, Notification ''ExodusFlickrVerificationFailed''),
          (0, Callback False (LLMap [(''oauth_problem'', ''token_rejected'')])),
          (0, SetFlag False)]
   \<and> objects probing 0 = Some \<lparr>mAuthenticating = True, waiting = CheckResult\<rparr>
   \<and> new_effects probing
         (step queryMap False
            (RequestDone 0 True (LLMap [(''stat'', ''fail''), (''code'', ''98'')])) probing)
       = [(0, Notification ''ExodusFlickrVerificationExplanation'')]"
proof -
  have leg1: "objects requesting 0 = Some \<lparr>mAuthenticating = True, waiting = GotRequestToken\<rparr>"
    by (simp add: requesting_fields)
  have leg3: "objects exchanging 0 = Some \<lparr>mAuthenticating = True, waiting = GotAccessToken\<rparr>"
    by (simp add: exchanging_fields)
  have probe: "objects probing 0 = Some \<lparr>mAuthenticating = True, waiting = CheckResult\<rparr>"
    by (simp add: probing_fields)
  have body: "queryMap ''oauth_problem=token_rejected'' = LLMap [(''oauth_problem'', ''token_rejected'')]"
    by (simp add: queryMap_def key_value_def)
  from leg_failure_classification [OF leg1, where qm = queryMap and declared = False
      and aData = "\<lparr>status_type = 500, raw = []\<rparr>"]
    leg_failure_classification [OF leg3, where qm = queryMap and declared = False
      and aData = "\<lparr>status_type = 401, raw = ''oauth_problem=token_rejected''\<rparr>"]
    leg_failure_classification [OF probe, where qm = queryMap and declared = False
      and success = True and response = "LLMap [(''stat'', ''fail''), (''code'', ''98'')]"]
    leg1 leg3 probe body
  show ?thesis
    by (simp add: HTTP_OK_def farewell_def)
qed

text \<open>
  Claim C5. When the validation probe of a live attempt completes without success, or
  with a response whose field \<^verbatim>\<open>stat\<close> is not \<^verbatim>\<open>ok\<close>, the attempt shows the explanatory
  consent prompt and waits for its answer: the object stays alive, that notification is
  the only thing done, so the callback is not called, and the flag and the settings store
  are as before.
\<close>

theorem probe_failure_reprompts:
  assumes "objects s i = Some ob" and "waiting ob = CheckResult"
      and "\<not> success \<or> asString response ''stat'' \<noteq> ''ok''"
  shows "objects (step qm declared (RequestDone i success response) s) i
           = Some (ob\<lparr>waiting := ExplanationCallback\<rparr>)
       \<and> new_effects s (step qm declared (RequestDone i success response) s)
           = [(i, Notification ''ExodusFlickrVerificationExplanation'')]
       \<and> sAuthorisationInProgress (step qm declared (RequestDone i success response) s)
           = sAuthorisationInProgress s
       \<and> gSavedPerAccountSettings (step qm declared (RequestDone i success response) s)
           = gSavedPerAccountSettings s"
  using assms by (simp add: step_def checkResult_invalid)

theorem probe_failure_reprompts_witness:
  "objects probing 0 = Some \<lparr>mAuthenticating = True, waiting = CheckResult\<rparr>
   \<and> objects (step queryMap False (RequestDone 0 False Undefined) probing) 0
       = Some \<lparr>mAuthenticating = True, waiting = ExplanationCallback\<rparr>
   \<and> new_effects probing (step queryMap False (RequestDone 0 False Undefined) probing)
       = [(0, Notification ''ExodusFlickrVerificationExplanation'')]
   \<and> sAuthorisationInProgress (step queryMap False (RequestDone 0 False Undefined) probing)"
proof -
  have live: "objects probing 0 = Some \<lparr>mAuthenticating = True, waiting = CheckResult\<rparr>"
    by (simp add: probing_fields)
  from probe_failure_reprompts [OF live, where success = False and response = Undefined
      and qm = queryMap and declared = False] live
  show ?thesis
    by (simp add: probing_fields)
qed

section \<open>The three legs\<close>

text \<open>
  Claim C6. When the request-token response of a live attempt has status \<^verbatim>\<open>HTTP_OK\<close> and
  its decoded body holds the token \<open>token\<close> and the secret \<open>secret\<close>, the member function
  does four things in this order: it writes \<open>token\<close> to \<^verbatim>\<open>ExodusFlickrToken\<close>, writes
  \<open>secret\<close> to \<^verbatim>\<open>ExodusFlickrTokenSecret\<close>, opens the browser on the authorisation page
  for \<open>token\<close>, and shows the verifier prompt. The store holds both values, and the
  attempt waits for the verifier.
\<close>

theorem request_token_persisted_first:
  assumes "objects s i = Some ob" and "waiting ob = GotRequestToken"
      and "status_type aData = HTTP_OK"
      and "asString (qm (raw aData)) ''oauth_token'' = token"
      and "asString (qm (raw aData)) ''oauth_token_secret'' = secret"
  shows "new_effects s (step qm declared (HttpDone i aData) s)
           = [(i, SetString ''ExodusFlickrToken'' token),
              (i, SetString ''ExodusFlickrTokenSecret'' secret),
              (i, SpawnWebBrowser
                    (''https://www.flickr.com/services/oauth/authorize?perms=write&oauth_token=''
                       @ token)),
              (i, Notification ''ExodusFlickrVerificationPrompt'')]
       \<and> gSavedPerAccountSettings (step qm declared (HttpDone i aData) s) ''ExodusFlickrToken''
           = token
       \<and> gSavedPerAccountSettings (step qm declared (HttpDone i aData) s)
           ''ExodusFlickrTokenSecret'' = secret
       \<and> objects (step qm declared (HttpDone i aData) s) i = Some (ob\<lparr>waiting := GotVerifier\<rparr>)"
  using assms by (simp add: step_def exoFlickrAuthResponse_def gotRequestToken_succeeded)

theorem request_token_persisted_first_witness:
  "objects requesting 0 = Some \<lparr>mAuthenticating = True, waiting = GotRequestToken\<rparr>
   \<and> asString (queryMap ''oauth_token=ABC&oauth_token_secret=XYZ'') ''oauth_token'' = ''ABC''
   \<and> asString (queryMap ''oauth_token=ABC&oauth_token_secret=XYZ'') ''oauth_token_secret'' = ''XYZ''
   \<and> new_effects requesting
         (step queryMap False
            (HttpDone 0 \<lparr>status_type = HTTP_OK, raw = ''oauth_token=ABC&oauth_token_secret=XYZ''\<rparr>)
            requesting)
       = [(0, SetString ''ExodusFlickrToken'' ''ABC''),
          (0, SetString ''ExodusFlickrTokenSecret'' ''XYZ''),
          (0, SpawnWebBrowser
                ''https://www.flickr.com/services/oauth/authorize?perms=write&oauth_token=ABC''),
          (0, Notification ''ExodusFlickrVerificationPrompt'')]
   \<and> gSavedPerAccountSettings
         (step queryMap False
            (HttpDone 0 \<lparr>status_type = HTTP_OK, raw = ''oauth_token=ABC&oauth_token_secret=XYZ''\<rparr>)
            requesting) ''ExodusFlickrToken'' = ''ABC''
   \<and> gSavedPerAccountSettings
         (step queryMap False
            (HttpDone 0 \<lparr>status_type = HTTP_OK, raw = ''oauth_token=ABC&oauth_token_secret=XYZ''\<rparr>)
            requesting) ''ExodusFlickrTokenSecret'' = ''XYZ''"
proof -
  have live: "objects requesting 0 = Some \<lparr>mAuthenticating = True, waiting = GotRequestToken\<rparr>"
    by (simp add: requesting_fields)
  have token: "asString (queryMap ''oauth_token=ABC&oauth_token_secret=XYZ'') ''oauth_token'' = ''ABC''"
    by (simp add: queryMap_def key_value_def)
  have secret:
    "asString (queryMap ''oauth_token=ABC&oauth_token_secret=XYZ'') ''oauth_token_secret'' = ''XYZ''"
    by (simp add: queryMap_def key_value_def)
  from request_token_persisted_first [OF live, where declared = False and qm = queryMap
      and aData = "\<lparr>status_type = HTTP_OK, raw = ''oauth_token=ABC&oauth_token_secret=XYZ''\<rparr>"
      and token = "''ABC''" and secret = "''XYZ''"] live token secret
  show ?thesis
    by simp
qed

text \<open>
  Claim C7. When the access-token response of a live attempt has status \<^verbatim>\<open>HTTP_OK\<close> and
  decodes to \<open>params\<close>, the five settings \<^verbatim>\<open>ExodusFlickrToken\<close>,
  \<^verbatim>\<open>ExodusFlickrTokenSecret\<close>, \<^verbatim>\<open>ExodusFlickrFullName\<close>, \<^verbatim>\<open>ExodusFlickrNSID\<close> and
  \<^verbatim>\<open>ExodusFlickrUsername\<close> hold the fields \<^verbatim>\<open>oauth_token\<close>, \<^verbatim>\<open>oauth_token_secret\<close>,
  \<^verbatim>\<open>fullname\<close>, \<^verbatim>\<open>user_nsid\<close> and \<^verbatim>\<open>username\<close> of \<open>params\<close>, the callback is called
  once, with \<open>(true, params)\<close>, and the attempt is deleted. The witness is the body of the
  spec, \<^verbatim>\<open>oauth_token=T2&oauth_token_secret=S2&fullname=Jane+Doe&user_nsid=123&username=jane\<close>.
\<close>

theorem access_token_success:
  assumes "objects s i = Some ob" and "waiting ob = GotAccessToken"
      and "status_type aData = HTTP_OK"
      and "qm (raw aData) = params"
  shows "gSavedPerAccountSettings (step qm declared (HttpDone i aData) s) ''ExodusFlickrToken''
           = asString params ''oauth_token''
       \<and> gSavedPerAccountSettings (step qm declared (HttpDone i aData) s)
           ''ExodusFlickrTokenSecret'' = asString params ''oauth_token_secret''
       \<and> gSavedPerAccountSettings (step qm declared (HttpDone i aData) s) ''ExodusFlickrFullName''
           = asString params ''fullname''
       \<and> gSavedPerAccountSettings (step qm declared (HttpDone i aData) s) ''ExodusFlickrNSID''
           = asString params ''user_nsid''
       \<and> gSavedPerAccountSettings (step qm declared (HttpDone i aData) s) ''ExodusFlickrUsername''
           = asString params ''username''
       \<and> callbacks_of i (new_effects s (step qm declared (HttpDone i aData) s))
           = [Callback True params]
       \<and> objects (step qm declared (HttpDone i aData) s) i = None"
  using assms
  by (simp add: step_def exoFlickrAuthResponse_def gotAccessToken_succeeded callbacks_of_def)

theorem access_token_success_witness:
  "objects exchanging 0 = Some \<lparr>mAuthenticating = True, waiting = GotAccessToken\<rparr>
   \<and> gSavedPerAccountSettings
         (step queryMap False (HttpDone 0 \<lparr>status_type = HTTP_OK, raw = jane\<rparr>) exchanging)
         ''ExodusFlickrToken'' = ''T2''
   \<and> gSavedPerAccountSettings
         (step queryMap False (HttpDone 0 \<lparr>status_type = HTTP_OK, raw = jane\<rparr>) exchanging)
         ''ExodusFlickrTokenSecret'' = ''S2''
   \<and> gSavedPerAccountSettings
         (step queryMap False (HttpDone 0 \<lparr>status_type = HTTP_OK, raw = jane\<rparr>) exchanging)
         ''ExodusFlickrFullName'' = ''Jane Doe''
   \<and> gSavedPerAccountSettings
         (step queryMap False (HttpDone 0 \<lparr>status_type = HTTP_OK, raw = jane\<rparr>) exchanging)
         ''ExodusFlickrNSID'' = ''123''
   \<and> gSavedPerAccountSettings
         (step queryMap False (HttpDone 0 \<lparr>status_type = HTTP_OK, raw = jane\<rparr>) exchanging)
         ''ExodusFlickrUsername'' = ''jane''
   \<and> callbacks_of 0
         (new_effects exchanging
            (step queryMap False (HttpDone 0 \<lparr>status_type = HTTP_OK, raw = jane\<rparr>) exchanging))
       = [Callback True
            (LLMap [(''oauth_token'', ''T2''), (''oauth_token_secret'', ''S2''),
                    (''fullname'', ''Jane Doe''), (''user_nsid'', ''123''),
                    (''username'', ''jane'')])]"
proof -
  have live: "objects exchanging 0 = Some \<lparr>mAuthenticating = True, waiting = GotAccessToken\<rparr>"
    by (simp add: exchanging_fields)
  from access_token_success [OF live, where declared = False and qm = queryMap
      and aData = "\<lparr>status_type = HTTP_OK, raw = jane\<rparr>"
      and params = "LLMap [(''oauth_token'', ''T2''), (''oauth_token_secret'', ''S2''),
                           (''fullname'', ''Jane Doe''), (''user_nsid'', ''123''),
                           (''username'', ''jane'')]"] live queryMap_jane
  show ?thesis
    by simp
qed

text \<open>
  Claim C8. When the access-token response of a live attempt has a status other than
  \<^verbatim>\<open>HTTP_OK\<close>, the member function shows the notice \<^verbatim>\<open>ExodusFlickrVerificationFailed\<close>,
  then calls the callback with false and the decoded body of the response (not with
  \<^verbatim>\<open>LLSD()\<close>), and deletes the attempt; the settings store is not written.
\<close>

theorem access_token_failure:
  assumes "objects s i = Some ob" and "waiting ob = GotAccessToken"
      and "status_type aData \<noteq> HTTP_OK"
  shows "new_effects s (step qm declared (HttpDone i aData) s)
           = [(i, Notification ''ExodusFlickrVerificationFailed''),
              (i, Callback False (qm (raw aData)))] @ farewell i ob
       \<and> gSavedPerAccountSettings (step qm declared (HttpDone i aData) s)
           = gSavedPerAccountSettings s
       \<and> objects (step qm declared (HttpDone i aData) s) i = None"
  using assms
  by (simp add: step_def exoFlickrAuthResponse_def gotAccessToken_failed)

theorem access_token_failure_witness:
  "objects exchanging 0 = Some \<lparr>mAuthenticating = True, waiting = GotAccessToken\<rparr>
   \<and> (401::nat) \<noteq> HTTP_OK
   \<and> new_effects exchanging
        (step queryMap False
           (HttpDone 0 \<lparr>status_type = 401, raw = ''oauth_problem=verifier_invalid''\<rparr>) exchanging)
       = [(0, Notification ''ExodusFlickrVerificationFailed''),
          (0, Callback False (LLMap [(''oauth_problem'', ''verifier_invalid'')])),
          (0, SetFlag False)]
   \<and> gSavedPerAccountSettings
        (step queryMap False
           (HttpDone 0 \<lparr>status_type = 401, raw = ''oauth_problem=verifier_invalid''\<rparr>) exchanging)
        ''ExodusFlickrToken'' = ''ABC''"
proof -
  have live: "objects exchanging 0 = Some \<lparr>mAuthenticating = True, waiting = GotAccessToken\<rparr>"
    by (simp add: exchanging_fields)
  have status: "(401::nat) \<noteq> HTTP_OK"
    by (simp add: HTTP_OK_def)
  have body: "queryMap ''oauth_problem=verifier_invalid''
                = LLMap [(''oauth_problem'', ''verifier_invalid'')]"
    by (simp add: queryMap_def key_value_def)
  from access_token_failure [OF live, where declared = False and qm = queryMap
      and aData = "\<lparr>status_type = 401, raw = ''oauth_problem=verifier_invalid''\<rparr>"]
    live status body
  show ?thesis
    by (simp add: farewell_def exchanging_fields)
qed

section \<open>Whole attempts\<close>

text \<open>
  Claim C9. Constructing an attempt while no other is in progress, with a stored token
  and a stored secret both non-empty, and completing its validation probe with success
  and \<^verbatim>\<open>stat\<close> equal to \<^verbatim>\<open>ok\<close>: the attempt sets the flag, issues the probe, calls the
  callback with \<open>(true, LLSD())\<close> and clears the flag, and does nothing else; none of the
  handshake legs is issued, the settings store is unchanged, the attempt is deleted.
\<close>

theorem stored_credentials_reused:
  assumes "\<not> sAuthorisationInProgress s"
      and "gSavedPerAccountSettings s ''ExodusFlickrToken'' \<noteq> []"
      and "gSavedPerAccountSettings s ''ExodusFlickrTokenSecret'' \<noteq> []"
      and "asString response ''stat'' = ''ok''"
  shows "new_effects s (run qm declared [New, RequestDone (allocated s) True response] s)
           = [(allocated s, SetFlag True),
              (allocated s, FlickrRequest ''flickr.test.login'' Undefined),
              (allocated s, Callback True Undefined),
              (allocated s, SetFlag False)]
       \<and> gSavedPerAccountSettings (run qm declared [New, RequestDone (allocated s) True response] s)
           = gSavedPerAccountSettings s
       \<and> objects (run qm declared [New, RequestDone (allocated s) True response] s) (allocated s)
           = None
       \<and> \<not> sAuthorisationInProgress
             (run qm declared [New, RequestDone (allocated s) True response] s)"
  using assms
  by (simp add: step_def constructor_check checkResult_valid [where ob = "\<lparr>mAuthenticating = True, waiting = CheckResult\<rparr>"] farewell_def)

theorem stored_credentials_reused_witness:
  "\<not> sAuthorisationInProgress (initial (stored ''T'' ''S''))
   \<and> new_effects (initial (stored ''T'' ''S''))
        (run queryMap False [New, RequestDone 0 True (LLMap [(''stat'', ''ok'')])]
           (initial (stored ''T'' ''S'')))
       = [(0, SetFlag True), (0, FlickrRequest ''flickr.test.login'' Undefined),
          (0, Callback True Undefined), (0, SetFlag False)]
   \<and> gSavedPerAccountSettings
        (run queryMap False [New, RequestDone 0 True (LLMap [(''stat'', ''ok'')])]
           (initial (stored ''T'' ''S''))) ''ExodusFlickrToken'' = ''T''
   \<and> gSavedPerAccountSettings
        (run queryMap False [New, RequestDone 0 True (LLMap [(''stat'', ''ok'')])]
           (initial (stored ''T'' ''S''))) ''ExodusFlickrTokenSecret'' = ''S''"
proof -
  have idle: "\<not> sAuthorisationInProgress (initial (stored ''T'' ''S''))"
    by (simp add: initial_def)
  have token: "gSavedPerAccountSettings (initial (stored ''T'' ''S'')) ''ExodusFlickrToken'' \<noteq> []"
    by (simp add: initial_def stored_def)
  have secret:
    "gSavedPerAccountSettings (initial (stored ''T'' ''S'')) ''ExodusFlickrTokenSecret'' \<noteq> []"
    by (simp add: initial_def stored_def)
  have ok: "asString (LLMap [(''stat'', ''ok'')]) ''stat'' = ''ok''"
    by simp
  have zero: "allocated (initial (stored ''T'' ''S'')) = 0"
    by (simp add: initial_def)
  from stored_credentials_reused [OF idle token secret ok, of queryMap False] idle zero
  show ?thesis
    by (simp add: initial_def stored_def)
qed

text \<open>
  Claim C10 as stated (in every run in which the user declines the explanatory prompt,
  the attempt issues no HTTP request) fails for an attempt that found stored credentials:
  it issued the validation probe before the prompt was shown.
\<close>

theorem declined_after_probe_counterexample:
  "objects declined_after_probe 0 = None
   \<and> callbacks_of 0 (trace declined_after_probe) = [Callback False Undefined]
   \<and> filter is_http (effects_of 0 (trace declined_after_probe))
       = [FlickrRequest ''flickr.test.login'' Undefined]"
  by (simp add: declined_after_probe_fields callbacks_of_def)

text \<open>
  Claim C10, amended. When the user answers the explanatory consent prompt of a live
  attempt with any option other than 0, the attempt calls the callback with
  \<open>(false, LLSD())\<close>, is deleted, and does nothing else from the prompt on: no HTTP
  request is issued and the settings store is not written. An attempt constructed while
  no other is in progress and with an empty stored token or secret, and then declined,
  has issued no HTTP request at all: it set the flag, showed the prompt, called the
  callback and cleared the flag. (An attempt that found stored credentials has issued the
  validation probe before the prompt.)
\<close>

theorem consent_declined:
  assumes "option \<noteq> 0"
  shows
    "(objects s i = Some ob \<and> waiting ob = ExplanationCallback \<longrightarrow>
        new_effects s (step qm declared (NotificationDone i option response) s)
          = (i, Callback False Undefined) # farewell i ob
        \<and> objects (step qm declared (NotificationDone i option response) s) i = None
        \<and> gSavedPerAccountSettings (step qm declared (NotificationDone i option response) s)
            = gSavedPerAccountSettings s)
   \<and> (\<not> sAuthorisationInProgress s
        \<and> (gSavedPerAccountSettings s ''ExodusFlickrToken'' = []
             \<or> gSavedPerAccountSettings s ''ExodusFlickrTokenSecret'' = []) \<longrightarrow>
        new_effects s
          (run qm declared [New, NotificationDone (allocated s) option response] s)
          = [(allocated s, SetFlag True),
             (allocated s, Notification ''ExodusFlickrVerificationExplanation''),
             (allocated s, Callback False Undefined),
             (allocated s, SetFlag False)]
        \<and> objects (run qm declared [New, NotificationDone (allocated s) option response] s)
            (allocated s) = None)"
proof -
  have at_prompt: "objects s i = Some ob \<and> waiting ob = ExplanationCallback \<longrightarrow>
        new_effects s (step qm declared (NotificationDone i option response) s)
          = (i, Callback False Undefined) # farewell i ob
        \<and> objects (step qm declared (NotificationDone i option response) s) i = None
        \<and> gSavedPerAccountSettings (step qm declared (NotificationDone i option response) s)
            = gSavedPerAccountSettings s"
    using assms by (simp add: step_def explanationCallback_declined)
  have from_start: "\<not> sAuthorisationInProgress s
        \<and> (gSavedPerAccountSettings s ''ExodusFlickrToken'' = []
             \<or> gSavedPerAccountSettings s ''ExodusFlickrTokenSecret'' = []) \<longrightarrow>
        new_effects s
          (run qm declared [New, NotificationDone (allocated s) option response] s)
          = [(allocated s, SetFlag True),
             (allocated s, Notification ''ExodusFlickrVerificationExplanation''),
             (allocated s, Callback False Undefined),
             (allocated s, SetFlag False)]
        \<and> objects (run qm declared [New, NotificationDone (allocated s) option response] s)
            (allocated s) = None"
    using assms
    by (auto simp add: step_def constructor_begin farewell_def
        explanationCallback_declined [where ob = "\<lparr>mAuthenticating = True, waiting = ExplanationCallback\<rparr>"])
  from at_prompt from_start show ?thesis by blast
qed

theorem consent_declined_witness:
  "(2::int) \<noteq> 0
   \<and> objects consenting 0 = Some \<lparr>mAuthenticating = True, waiting = ExplanationCallback\<rparr>
   \<and> new_effects consenting (step queryMap False (NotificationDone 0 2 Undefined) consenting)
       = [(0, Callback False Undefined), (0, SetFlag False)]
   \<and> objects (step queryMap False (NotificationDone 0 2 Undefined) consenting) 0 = None
   \<and> \<not> sAuthorisationInProgress (initial (stored [] []))
   \<and> gSavedPerAccountSettings (initial (stored [] [])) ''ExodusFlickrToken'' = []
   \<and> new_effects (initial (stored [] []))
        (run queryMap False [New, NotificationDone 0 2 Undefined] (initial (stored [] [])))
       = [(0, SetFlag True), (0, Notification ''ExodusFlickrVerificationExplanation''),
          (0, Callback False Undefined), (0, SetFlag False)]"
proof -
  have declined: "(2::int) \<noteq> 0"
    by simp
  have live: "objects consenting 0 = Some \<lparr>mAuthenticating = True, waiting = ExplanationCallback\<rparr>"
    by (simp add: consenting_fields)
  have idle: "\<not> sAuthorisationInProgress (initial (stored [] []))"
    by (simp add: initial_def)
  have empty: "gSavedPerAccountSettings (initial (stored [] [])) ''ExodusFlickrToken'' = []"
    by (simp add: initial_def stored_def)
  have zero: "allocated (initial (stored [] [])) = 0"
    by (simp add: initial_def)
  from consent_declined [OF declined, where s = consenting and i = 0
      and ob = "\<lparr>mAuthenticating = True, waiting = ExplanationCallback\<rparr>"
      and qm = queryMap and declared = False and response = Undefined]
    consent_declined [OF declined, where s = "initial (stored [] [])"
      and qm = queryMap and declared = False and response = Undefined]
    declined live idle empty zero
  show ?thesis
    by (simp add: farewell_def)
qed

end
